theory Spec2Isabelle
  imports Complex_Main "HOL-Library.Word"
begin

section \<open>JavaScript strings\<close>

text \<open>
  A JavaScript string is a sequence of UTF-16 code units. String equality (\<open>===\<close>),
  concatenation (template literals) and \<open>String.prototype.trim\<close> all work on code units,
  so a string is modelled as a list of 16-bit words. \<open>str\<close> embeds an ASCII literal of the
  source.
\<close>

type_synonym jsstring = "16 word list"

definition str :: "string \<Rightarrow> jsstring" where
  "str cs = map of_char cs"

text \<open>
  The code units removed by \<open>trim\<close>: ECMAScript's WhiteSpace (TAB, VT, FF, ZWNBSP and the
  Unicode space separators) and LineTerminator (LF, CR, LS, PS) productions. All of them
  lie in the basic plane, so each is one code unit.
\<close>

definition isWhiteSpace :: "16 word \<Rightarrow> bool" where
  "isWhiteSpace c =
     (c \<in> set [0x0009, 0x000A, 0x000B, 0x000C, 0x000D, 0x0020, 0x00A0, 0x1680,
                0x2000, 0x2001, 0x2002, 0x2003, 0x2004, 0x2005, 0x2006, 0x2007,
                0x2008, 0x2009, 0x200A, 0x2028, 0x2029, 0x202F, 0x205F, 0x3000,
                0xFEFF])"

definition trim :: "jsstring \<Rightarrow> jsstring" where
  "trim s = rev (dropWhile isWhiteSpace (rev (dropWhile isWhiteSpace s)))"

section \<open>Data model (types.ts)\<close>

text \<open>
  \<open>MedicalConcept\<close>: the optional \<open>system\<close> is an option; \<open>difficulty\<close> is the integer the
  service schema asks for. The field \<open>note\<close> of the source is \<open>note_c\<close> here, and the field
  \<open>id\<close> of \<open>Node\<close> is \<open>id_n\<close>, since both names are taken in Isabelle.
\<close>

record MedicalConcept =
  concept :: jsstring
  relation :: jsstring
  note_c :: jsstring
  difficulty :: int
  system :: "jsstring option"

text \<open>
  \<open>Node\<close>: of the simulation datum it extends (position, velocity, pin) nothing is read or
  written by the code modelled here, so only the declared fields are kept. \<open>width\<close> and
  \<open>height\<close> are JavaScript numbers, idealised as reals.
\<close>

record Node =
  id_n :: jsstring
  width :: "real option"
  height :: "real option"
  color :: jsstring
  data :: MedicalConcept

text \<open>A link endpoint is \<open>string | Node\<close>: a bare id or a resolved node.\<close>

datatype endpoint = Id jsstring | Resolved Node

record Link =
  source :: endpoint
  target :: endpoint

record GraphData =
  nodes :: "Node list"
  links :: "Link list"

record QuizQuestion =
  question :: jsstring
  options :: "jsstring list"
  correctAnswer :: jsstring
  explanation :: jsstring

record Flashcard =
  question :: jsstring
  answer :: jsstring

section \<open>App: building the graph (processConcepts)\<close>

text \<open>
  The colour table of App. The lookup \<open>systemColors[k]\<close> is modelled on the table's own
  keys; every value is a non-empty string, hence truthy.
\<close>

definition systemColors :: "(jsstring \<times> jsstring) list" where
  "systemColors =
     [(str ''Cardiovascular'', str ''#ef4444''),
      (str ''Nervous'', str ''#3b82f6''),
      (str ''Endocrine'', str ''#8b5cf6''),
      (str ''Respiratory'', str ''#0ea5e9''),
      (str ''Gastrointestinal'', str ''#f97316''),
      (str ''Renal'', str ''#eab308''),
      (str ''Immune'', str ''#22c55e''),
      (str ''Pharmacology'', str ''#6366f1''),
      (str ''Metabolic'', str ''#ec4899''),
      (str ''Diagnostics'', str ''#14b8a6''),
      (str ''Default'', str ''#6b7280'')]"

definition systemKey :: "MedicalConcept \<Rightarrow> jsstring" where
  "systemKey c =
     (case system c of
        None \<Rightarrow> str ''Default''
      | Some sy \<Rightarrow>
          if sy \<noteq> [] \<and> map_of systemColors sy \<noteq> None then sy else str ''Default'')"

definition colorOf :: "jsstring \<Rightarrow> jsstring" where
  "colorOf k = (case map_of systemColors k of Some col \<Rightarrow> col | None \<Rightarrow> [])"

definition centralNode :: "jsstring \<Rightarrow> Node" where
  "centralNode centralTopic =
     \<lparr> id_n = centralTopic, width = None, height = None,
       color = str ''#06b6d4'',
       data = \<lparr> concept = centralTopic,
                relation = str ''Central Topic'',
                note_c = str ''Central hub for the topic of '' @ centralTopic @ str ''.'',
                difficulty = 0,
                system = Some (str ''Core'') \<rparr> \<rparr>"

definition conceptNode :: "MedicalConcept \<Rightarrow> Node" where
  "conceptNode c =
     \<lparr> id_n = concept c, width = None, height = None,
       color = colorOf (systemKey c), data = c \<rparr>"

definition conceptLink :: "jsstring \<Rightarrow> MedicalConcept \<Rightarrow> Link" where
  "conceptLink centralTopic c = \<lparr> source = Id centralTopic, target = Id (concept c) \<rparr>"

text \<open>
  The body of the \<open>forEach\<close>: one \<open>push\<close> onto \<open>nodes\<close> and one onto \<open>links\<close> per concept,
  threaded through the two arrays.
\<close>

fun pushAll :: "jsstring \<Rightarrow> MedicalConcept list \<Rightarrow> Node list \<times> Link list \<Rightarrow> Node list \<times> Link list" where
  "pushAll centralTopic [] acc = acc"
| "pushAll centralTopic (c # cs) (ns, ls) =
     pushAll centralTopic cs (ns @ [conceptNode c], ls @ [conceptLink centralTopic c])"

definition processConcepts :: "MedicalConcept list \<Rightarrow> jsstring \<Rightarrow> GraphData" where
  "processConcepts concepts centralTopic =
     (case pushAll centralTopic concepts ([centralNode centralTopic], []) of
        (ns, ls) \<Rightarrow> \<lparr> nodes = ns, links = ls \<rparr>)"

section \<open>App: state and handleGenerateMap\<close>

text \<open>
  The \<open>useState\<close> slots of \<open>App\<close> and of its one \<open>SidePanel\<close> child. \<open>App\<close> renders the panel
  at a fixed place without a key, so there is a single panel instance for the whole session
  and its slots live as long as the ones of \<open>App\<close>. The panel reads \<open>selectedNode\<close> (a prop)
  and writes \<open>apiError\<close> (through the \<open>setApiError\<close> prop).
\<close>

record ui_state =
  graphData :: GraphData
  isLoading :: bool
  selectedNode :: "Node option"
  topic :: jsstring
  initialLoad :: bool
  apiError :: "jsstring option"
  searchHistory :: "jsstring list"
  showHistory :: bool
  imageUrl :: "jsstring option"
  isImageLoading :: bool
  quiz :: "QuizQuestion option"
  isQuizLoading :: bool
  selectedAnswer :: "jsstring option"
  isAnswerSubmitted :: bool
  flashcards :: "Flashcard list"
  currentFlashcardIndex :: int
  isFlashcardLoading :: bool
  isFlashcardFlipped :: bool

text \<open>What a rejected service promise carries; no handler looks at it.\<close>

datatype error = Thrown jsstring

definition DEFAULT_TOPIC :: jsstring where
  "DEFAULT_TOPIC = str ''Diabetes Mellitus''"

text \<open>\<open>(currentTopic || DEFAULT_TOPIC).trim()\<close>: of all strings only the empty one is falsy.\<close>

definition topicToUse :: "jsstring \<Rightarrow> jsstring" where
  "topicToUse currentTopic = trim (if currentTopic \<noteq> [] then currentTopic else DEFAULT_TOPIC)"

definition emptyGraph :: GraphData where
  "emptyGraph = \<lparr> nodes = [], links = [] \<rparr>"

definition mapErrorMessage :: jsstring where
  "mapErrorMessage =
     str ''API Error: Could not generate map. You may have exceeded your quota. Please try again later.''"

text \<open>
  \<open>handleGenerateMap\<close> is asynchronous. Its synchronous part runs up to the \<open>await\<close> and
  either returns at once (no request) or issues the request for \<open>topicToUse\<close>. Clearing
  the selection makes the panel's effect run, but with no node selected its body does
  nothing.
\<close>

definition handleGenerateMap_begin :: "jsstring \<Rightarrow> ui_state \<Rightarrow> ui_state \<times> jsstring option" where
  "handleGenerateMap_begin currentTopic s =
     (let t = topicToUse currentTopic in
      if t = [] then (s, None)
      else (s\<lparr> topic := t, isLoading := True, selectedNode := None, apiError := None \<rparr>, Some t))"

definition newHistory :: "jsstring \<Rightarrow> jsstring list \<Rightarrow> jsstring list" where
  "newHistory t prevHistory = t # filter (\<lambda>x. x \<noteq> t) prevHistory"

text \<open>
  The continuation after the \<open>await\<close>: the \<open>try\<close> body on a fulfilled promise, the \<open>catch\<close>
  body on a rejected one, then \<open>finally\<close>. It runs on the state of the moment the promise
  settles (the history setter is a functional update).
\<close>

definition handleGenerateMap_settle ::
  "jsstring \<Rightarrow> bool \<Rightarrow> error + MedicalConcept list \<Rightarrow> ui_state \<Rightarrow> ui_state" where
  "handleGenerateMap_settle t addToHistory outcome s =
     (let s1 =
        (case outcome of
           Inr concepts \<Rightarrow>
             (let s' = s\<lparr> graphData := processConcepts concepts t \<rparr> in
              if addToHistory
              then s'\<lparr> searchHistory := take 10 (newHistory t (searchHistory s')) \<rparr>
              else s')
         | Inl e \<Rightarrow> s\<lparr> apiError := Some mapErrorMessage, graphData := emptyGraph \<rparr>)
      in s1\<lparr> isLoading := False, initialLoad := False, showHistory := False \<rparr>)"

text \<open>
  The whole call with nothing else happening in between; \<open>generateMedicalMap\<close> is the
  external service, a parameter.
\<close>

definition handleGenerateMap ::
  "(jsstring \<Rightarrow> error + MedicalConcept list) \<Rightarrow> jsstring \<Rightarrow> bool \<Rightarrow> ui_state \<Rightarrow> ui_state" where
  "handleGenerateMap generateMedicalMap currentTopic addToHistory s =
     (case handleGenerateMap_begin currentTopic s of
        (s', None) \<Rightarrow> s'
      | (s', Some t) \<Rightarrow> handleGenerateMap_settle t addToHistory (generateMedicalMap t) s')"

section \<open>SidePanel\<close>

text \<open>
  The effect on \<open>[selectedNode, setApiError]\<close>: with a node selected it resets the panel's
  slots and starts \<open>getImage\<close>; the result names the concept whose image is requested.
\<close>

definition selectionEffect :: "ui_state \<Rightarrow> ui_state \<times> jsstring option" where
  "selectionEffect s =
     (case selectedNode s of
        None \<Rightarrow> (s, None)
      | Some n \<Rightarrow>
          (s\<lparr> imageUrl := None, quiz := None, selectedAnswer := None,
              isAnswerSubmitted := False, flashcards := [], currentFlashcardIndex := 0,
              isFlashcardFlipped := False, apiError := None, isImageLoading := True \<rparr>,
           Some (concept (data n))))"

text \<open>
  The rest of \<open>getImage\<close> after its \<open>await\<close>. \<open>fetchConceptImage\<close> catches every failure and
  answers \<open>null\<close>, so the outcome is a url or nothing.
\<close>

definition getImage_settle :: "jsstring option \<Rightarrow> ui_state \<Rightarrow> ui_state" where
  "getImage_settle url s = s\<lparr> imageUrl := url, isImageLoading := False \<rparr>"

text \<open>
  \<open>handleNodeClick\<close> of App sets the selection; the panel's effect runs when the dependency
  changed (compared by value here).
\<close>

definition handleNodeClick :: "Node \<Rightarrow> ui_state \<Rightarrow> ui_state \<times> jsstring option" where
  "handleNodeClick node s =
     (if selectedNode s = Some node then (s, None)
      else selectionEffect (s\<lparr> selectedNode := Some node \<rparr>))"

definition quizErrorMessage :: jsstring where
  "quizErrorMessage =
     str ''API Error: Could not generate quiz. You may have exceeded your quota. Please try again later.''"

definition flashcardErrorMessage :: jsstring where
  "flashcardErrorMessage =
     str ''API Error: Could not generate flashcard. You may have exceeded your quota. Please try again later.''"

definition handleGenerateQuiz_begin :: "ui_state \<Rightarrow> ui_state \<times> MedicalConcept option" where
  "handleGenerateQuiz_begin s =
     (case selectedNode s of
        None \<Rightarrow> (s, None)
      | Some n \<Rightarrow>
          (s\<lparr> isQuizLoading := True, quiz := None, selectedAnswer := None,
              isAnswerSubmitted := False, apiError := None \<rparr>,
           Some (data n)))"

definition handleGenerateQuiz_settle :: "error + QuizQuestion \<Rightarrow> ui_state \<Rightarrow> ui_state" where
  "handleGenerateQuiz_settle outcome s =
     (case outcome of
        Inr quizQuestion \<Rightarrow> s\<lparr> quiz := Some quizQuestion \<rparr>
      | Inl e \<Rightarrow> s\<lparr> apiError := Some quizErrorMessage \<rparr>)
     \<lparr> isQuizLoading := False \<rparr>"

text \<open>
  \<open>handleGenerateFlashcard\<close>: the request carries the concept and the \<open>flashcards\<close> array of
  the render in which the button was pressed; the continuation appends to the current
  list (functional update) but sets the index to the length of that captured array.
\<close>

definition handleGenerateFlashcard_begin ::
  "ui_state \<Rightarrow> ui_state \<times> (MedicalConcept \<times> Flashcard list) option" where
  "handleGenerateFlashcard_begin s =
     (case selectedNode s of
        None \<Rightarrow> (s, None)
      | Some n \<Rightarrow>
          (s\<lparr> isFlashcardLoading := True, isFlashcardFlipped := False, apiError := None \<rparr>,
           Some (data n, flashcards s)))"

definition handleGenerateFlashcard_settle ::
  "Flashcard list \<Rightarrow> error + Flashcard \<Rightarrow> ui_state \<Rightarrow> ui_state" where
  "handleGenerateFlashcard_settle captured outcome s =
     (case outcome of
        Inr newCard \<Rightarrow>
          s\<lparr> flashcards := flashcards s @ [newCard],
             currentFlashcardIndex := int (length captured) \<rparr>
      | Inl e \<Rightarrow> s\<lparr> apiError := Some flashcardErrorMessage \<rparr>)
     \<lparr> isFlashcardLoading := False \<rparr>"


definition handlePrevFlashcard :: "ui_state \<Rightarrow> ui_state" where
  "handlePrevFlashcard s =
     (if currentFlashcardIndex s > 0
      then s\<lparr> currentFlashcardIndex := currentFlashcardIndex s - 1, isFlashcardFlipped := False \<rparr>
      else s)"

definition handleNextFlashcard :: "ui_state \<Rightarrow> ui_state" where
  "handleNextFlashcard s =
     (if currentFlashcardIndex s < int (length (flashcards s)) - 1
      then s\<lparr> currentFlashcardIndex := currentFlashcardIndex s - 1, isFlashcardFlipped := False \<rparr>
      else s)"

subsection \<open>Interleaving of panel events\<close>

text \<open>
  Between a request and its response other events run. The requests in flight are kept
  beside the state, each with what its closure captured; \<open>Complete k r\<close> delivers the
  response \<open>r\<close> to the \<open>k\<close>-th of them. A response of the wrong kind for its request is not
  a possible event and leaves everything as it is. The two generate buttons are disabled
  while their own request is loading.
\<close>

datatype request =
    ImageReq jsstring
  | QuizReq MedicalConcept
  | FlashcardReq MedicalConcept "Flashcard list"

datatype response =
    ImageResp "jsstring option"
  | QuizResp "error + QuizQuestion"
  | FlashcardResp "error + Flashcard"

datatype event =
    NodeClick Node
  | GenerateQuizClick
  | GenerateFlashcardClick
  | Complete nat response

definition dropRequest :: "nat \<Rightarrow> request list \<Rightarrow> request list" where
  "dropRequest k pending = take k pending @ drop (Suc k) pending"

fun deliver :: "request \<Rightarrow> response \<Rightarrow> ui_state \<Rightarrow> ui_state option" where
  "deliver (ImageReq c) (ImageResp url) s = Some (getImage_settle url s)"
| "deliver (QuizReq c) (QuizResp outcome) s = Some (handleGenerateQuiz_settle outcome s)"
| "deliver (FlashcardReq c captured) (FlashcardResp outcome) s =
     Some (handleGenerateFlashcard_settle captured outcome s)"
| "deliver _ _ s = None"

fun step :: "event \<Rightarrow> ui_state \<times> request list \<Rightarrow> ui_state \<times> request list" where
  "step (NodeClick node) (s, pending) =
     (case handleNodeClick node s of
        (s', None) \<Rightarrow> (s', pending)
      | (s', Some c) \<Rightarrow> (s', pending @ [ImageReq c]))"
| "step GenerateQuizClick (s, pending) =
     (if isQuizLoading s then (s, pending)
      else case handleGenerateQuiz_begin s of
             (s', None) \<Rightarrow> (s', pending)
           | (s', Some c) \<Rightarrow> (s', pending @ [QuizReq c]))"
| "step GenerateFlashcardClick (s, pending) =
     (if isFlashcardLoading s then (s, pending)
      else case handleGenerateFlashcard_begin s of
             (s', None) \<Rightarrow> (s', pending)
           | (s', Some (c, captured)) \<Rightarrow> (s', pending @ [FlashcardReq c captured]))"
| "step (Complete k r) (s, pending) =
     (if k < length pending
      then case deliver (pending ! k) r s of
             Some s' \<Rightarrow> (s', dropRequest k pending)
           | None \<Rightarrow> (s, pending)
      else (s, pending))"

fun run :: "event list \<Rightarrow> ui_state \<times> request list \<Rightarrow> ui_state \<times> request list" where
  "run [] w = w"
| "run (e # es) w = run es (step e w)"

section \<open>MindMap\<close>

text \<open>
  \<open>getStableLinkId\<close>: \<open>typeof d.source === 'string'\<close> tells the two endpoint forms apart.
\<close>

definition getStableLinkId :: "Link \<Rightarrow> jsstring" where
  "getStableLinkId d =
     (let sourceId = (case source d of Id s \<Rightarrow> s | Resolved n \<Rightarrow> id_n n);
          targetId = (case target d of Id s \<Rightarrow> s | Resolved n \<Rightarrow> id_n n)
      in sourceId @ str ''-'' @ targetId)"

text \<open>The id an endpoint stands for, whichever form it has.\<close>

fun endpointId :: "endpoint \<Rightarrow> jsstring" where
  "endpointId (Id s) = s"
| "endpointId (Resolved n) = id_n n"

text \<open>\<open>d.width || 0\<close>: a missing dimension counts as 0.\<close>

definition orZero :: "real option \<Rightarrow> real" where
  "orZero v = (case v of None \<Rightarrow> 0 | Some x \<Rightarrow> x)"

definition PADDING_X :: real where
  "PADDING_X = 24"

definition PADDING_Y :: real where
  "PADDING_Y = 16"

text \<open>
  The measuring step of the data-change effect, for one node: \<open>bbox\<close> is the bounding box
  (width, height) of the node's text element, or nothing when there is no text element.
\<close>

definition measureNode :: "(real \<times> real) option \<Rightarrow> Node \<Rightarrow> Node" where
  "measureNode bbox d =
     (case bbox of
        Some (bw, bh) \<Rightarrow> d\<lparr> width := Some (bw + PADDING_X), height := Some (bh + PADDING_Y) \<rparr>
      | None \<Rightarrow> d\<lparr> width := Some 60, height := Some 40 \<rparr>)"

text \<open>The radius accessor given to \<open>forceCollide\<close> when the simulation is created.\<close>

definition collideRadius_init :: "Node \<Rightarrow> real" where
  "collideRadius_init d = max (orZero (width d)) (orZero (height d)) / 2 + 8"

text \<open>The radius accessor set again at the end of every data-change effect.\<close>

definition collideRadius_refresh :: "Node \<Rightarrow> real" where
  "collideRadius_refresh d = max (orZero (width d)) (orZero (height d)) / 2 + 8"

text \<open>The half-diagonal of a \<open>w\<close> by \<open>h\<close> box.\<close>

definition halfDiagonal :: "real \<Rightarrow> real \<Rightarrow> real" where
  "halfDiagonal w h = sqrt (w\<^sup>2 + h\<^sup>2) / 2"

section \<open>Initial state and sample inputs\<close>

text \<open>The initial values given to \<open>useState\<close> in \<open>App\<close> and \<open>SidePanel\<close>.\<close>

definition initialState :: ui_state where
  "initialState =
     \<lparr> graphData = emptyGraph, isLoading = False, selectedNode = None, topic = [],
       initialLoad = True, apiError = None, searchHistory = [], showHistory = False,
       imageUrl = None, isImageLoading = False, quiz = None, isQuizLoading = False,
       selectedAnswer = None, isAnswerSubmitted = False, flashcards = [],
       currentFlashcardIndex = 0, isFlashcardLoading = False, isFlashcardFlipped = False \<rparr>"

text \<open>Concrete inputs on which the theorems below are instantiated.\<close>

definition sampleConcept :: "string \<Rightarrow> string \<Rightarrow> MedicalConcept" where
  "sampleConcept name rel =
     \<lparr> concept = str name, relation = str rel, note_c = str ''a note'', difficulty = 3,
       system = Some (str ''Endocrine'') \<rparr>"

definition tenConcepts :: "MedicalConcept list" where
  "tenConcepts =
     [sampleConcept ''Insulin'' ''treatment'', sampleConcept ''Hyperglycemia'' ''symptom'',
      sampleConcept ''Obesity'' ''risk_factor'', sampleConcept ''Pancreas'' ''organ_system'',
      sampleConcept ''Neuropathy'' ''complication'', sampleConcept ''Retinopathy'' ''complication'',
      sampleConcept ''HbA1c'' ''diagnosis'', sampleConcept ''Metformin'' ''treatment'',
      sampleConcept ''Ketoacidosis'' ''complication'', sampleConcept ''Polyuria'' ''symptom'']"

definition sampleCard :: "string \<Rightarrow> Flashcard" where
  "sampleCard q = \<lparr> question = str q, answer = str ''an answer'' \<rparr>"

definition sampleQuiz :: QuizQuestion where
  "sampleQuiz =
     \<lparr> QuizQuestion.question = str ''Which hormone lowers blood glucose?'',
       options = [str ''Insulin'', str ''Glucagon'', str ''Cortisol'', str ''Adrenaline''],
       correctAnswer = str ''Insulin'', explanation = str ''Insulin drives glucose uptake.'' \<rparr>"


text \<open>A state in which a graph is displayed and three topics have been searched.\<close>

definition sampleState :: ui_state where
  "sampleState =
     initialState
       \<lparr> graphData := processConcepts tenConcepts (str ''Asthma''),
         topic := str ''Asthma'', initialLoad := False,
         searchHistory := [str ''Asthma'', str ''Diabetes Mellitus'', str ''Stroke''] \<rparr>"


definition insulinNode :: Node where
  "insulinNode = conceptNode (sampleConcept ''Insulin'' ''treatment'')"

definition obesityNode :: Node where
  "obesityNode = conceptNode (sampleConcept ''Obesity'' ''risk_factor'')"



section \<open>Properties of processConcepts\<close>

lemma pushAll_eq:
  "pushAll t cs (ns, ls) = (ns @ map conceptNode cs, ls @ map (conceptLink t) cs)"
  by (induction cs arbitrary: ns ls) auto

lemma nodes_processConcepts:
  "nodes (processConcepts cs t) = centralNode t # map conceptNode cs"
  by (simp add: processConcepts_def pushAll_eq)

lemma links_processConcepts:
  "links (processConcepts cs t) = map (conceptLink t) cs"
  by (simp add: processConcepts_def pushAll_eq)

text \<open>
  C1. For every topic and every list of \<open>n\<close> returned concepts, the graph built by
  \<open>processConcepts\<close> has \<open>n + 1\<close> nodes, the synthesized central node first and then one node
  per concept in input order (carrying that concept as its data and the concept's name
  as its id), the central node having the topic as its id, and \<open>n\<close> links; the \<open>i\<close>-th link goes from the central topic id to the name
  of the \<open>i\<close>-th concept. Ten concepts give 11 nodes and 10 links.
\<close>

theorem processConcepts_star:
  "length (nodes (processConcepts cs t)) = length cs + 1
   \<and> length (links (processConcepts cs t)) = length cs
   \<and> hd (nodes (processConcepts cs t)) = centralNode t
   \<and> id_n (hd (nodes (processConcepts cs t))) = t
   \<and> map data (tl (nodes (processConcepts cs t))) = cs
   \<and> map id_n (tl (nodes (processConcepts cs t))) = map concept cs
   \<and> (\<forall>i < length cs. source (links (processConcepts cs t) ! i) = Id t
                      \<and> target (links (processConcepts cs t) ! i) = Id (concept (cs ! i)))
   \<and> (length cs = 10 \<longrightarrow> length (nodes (processConcepts cs t)) = 11
                         \<and> length (links (processConcepts cs t)) = 10)"
  by (simp add: nodes_processConcepts links_processConcepts conceptLink_def conceptNode_def comp_def)
     (simp add: centralNode_def)

theorem processConcepts_star_witness:
  "length (nodes (processConcepts tenConcepts (str ''Diabetes Mellitus''))) = 11
   \<and> length (links (processConcepts tenConcepts (str ''Diabetes Mellitus''))) = 10
   \<and> source (links (processConcepts tenConcepts (str ''Diabetes Mellitus'')) ! 9)
       = Id (str ''Diabetes Mellitus'')
   \<and> target (links (processConcepts tenConcepts (str ''Diabetes Mellitus'')) ! 9)
       = Id (str ''Polyuria'')"
proof -
  have len: "length tenConcepts = 10" by (simp add: tenConcepts_def)
  have last: "concept (tenConcepts ! 9) = str ''Polyuria''"
    by (simp add: tenConcepts_def sampleConcept_def)
  show ?thesis
    using processConcepts_star [of tenConcepts "str ''Diabetes Mellitus''"] len last by simp
qed

section \<open>Strings\<close>

lemma of_char_word16_eq_iff: "(of_char c :: 16 word) = of_char d \<longleftrightarrow> c = d"
proof -
  have lt: "of_char x < (2::nat) ^ 16" for x
  proof -
    have "(of_char x :: nat) mod 256 = of_char x" by simp
    then have "(of_char x :: nat) < 256"
      by (metis mod_less_divisor zero_less_numeral)
    moreover have "(256::nat) < 2 ^ 16" by simp
    ultimately show ?thesis by (rule less_trans)
  qed
  have "(of_char c :: 16 word) = of_char d
          \<longleftrightarrow> (of_nat (of_char c) :: 16 word) = of_nat (of_char d)"
    by (simp add: of_nat_of_char)
  also have "\<dots> \<longleftrightarrow> take_bit 16 (of_char c :: nat) = take_bit 16 (of_char d :: nat)"
    by (simp add: word_of_nat_eq_iff)
  also have "\<dots> \<longleftrightarrow> (of_char c :: nat) = of_char d"
    using lt by (simp add: take_bit_nat_eq_self)
  also have "\<dots> \<longleftrightarrow> c = d" by simp
  finally show ?thesis .
qed

lemma str_eq_iff: "str a = str b \<longleftrightarrow> a = b"
proof -
  have "inj (of_char :: char \<Rightarrow> 16 word)"
    by (rule injI) (simp add: of_char_word16_eq_iff)
  then show ?thesis
    by (simp add: str_def)
qed

section \<open>The central node\<close>

lemma central_relation_count:
  "filter (\<lambda>n. relation (data n) = str ''Central Topic'') (nodes (processConcepts cs t))
     = centralNode t # map conceptNode (filter (\<lambda>c. relation c = str ''Central Topic'') cs)"
  by (simp add: nodes_processConcepts centralNode_def conceptNode_def filter_map comp_def)

text \<open>
  C2, as the code has it. The synthesized central node is the first node of the graph,
  with relation \<open>Central Topic\<close>, difficulty 0 and the topic as its id. The nodes with
  relation \<open>Central Topic\<close> are that node and one more for every returned concept whose
  own relation is \<open>Central Topic\<close>: the relation of a returned concept is taken over as it
  comes. So the central node is the only such node when no returned concept carries that
  relation. For every other node of the graph there is a link from the central node's id
  to that node's id.
\<close>

theorem central_node_invariant:
  "hd (nodes (processConcepts cs t)) = centralNode t
   \<and> relation (data (centralNode t)) = str ''Central Topic''
   \<and> difficulty (data (centralNode t)) = 0
   \<and> id_n (centralNode t) = t
   \<and> length (filter (\<lambda>n. relation (data n) = str ''Central Topic'') (nodes (processConcepts cs t)))
       = 1 + length (filter (\<lambda>c. relation c = str ''Central Topic'') cs)
   \<and> ((\<forall>c \<in> set cs. relation c \<noteq> str ''Central Topic'') \<longrightarrow>
        filter (\<lambda>n. relation (data n) = str ''Central Topic'') (nodes (processConcepts cs t))
          = [centralNode t])
   \<and> (\<forall>n \<in> set (tl (nodes (processConcepts cs t))).
        \<lparr> source = Id (id_n (centralNode t)), target = Id (id_n n) \<rparr>
          \<in> set (links (processConcepts cs t)))"
proof -
  have none: "filter (\<lambda>c. relation c = str ''Central Topic'') cs = []"
    if "\<forall>c \<in> set cs. relation c \<noteq> str ''Central Topic''"
    using that by (simp add: filter_empty_conv)
  have linked: "\<lparr> source = Id t, target = Id (id_n n) \<rparr> \<in> set (map (conceptLink t) cs)"
    if "n \<in> set (map conceptNode cs)" for n
    using that by (auto simp: conceptLink_def conceptNode_def)
  show ?thesis
    using none linked
    by (simp add: central_relation_count)
       (simp add: nodes_processConcepts links_processConcepts centralNode_def)
qed

text \<open>C2 on the ten sample concepts, none of which has relation \<open>Central Topic\<close>.\<close>

theorem central_node_invariant_witness:
  "filter (\<lambda>n. relation (data n) = str ''Central Topic'')
      (nodes (processConcepts tenConcepts (str ''Diabetes Mellitus'')))
     = [centralNode (str ''Diabetes Mellitus'')]
   \<and> \<lparr> source = Id (str ''Diabetes Mellitus''), target = Id (str ''Insulin'') \<rparr>
       \<in> set (links (processConcepts tenConcepts (str ''Diabetes Mellitus'')))"
proof -
  have rel: "\<forall>c \<in> set tenConcepts. relation c \<noteq> str ''Central Topic''"
    by (simp add: tenConcepts_def sampleConcept_def str_eq_iff)
  have mem: "conceptNode (sampleConcept ''Insulin'' ''treatment'')
               \<in> set (tl (nodes (processConcepts tenConcepts (str ''Diabetes Mellitus''))))"
    by (simp add: nodes_processConcepts tenConcepts_def)
  have idn: "id_n (conceptNode (sampleConcept ''Insulin'' ''treatment'')) = str ''Insulin''"
    by (simp add: conceptNode_def sampleConcept_def)
  have idc: "id_n (centralNode (str ''Diabetes Mellitus'')) = str ''Diabetes Mellitus''"
    by (simp add: centralNode_def)
  from central_node_invariant [of tenConcepts "str ''Diabetes Mellitus''"]
  have a: "filter (\<lambda>n. relation (data n) = str ''Central Topic'')
      (nodes (processConcepts tenConcepts (str ''Diabetes Mellitus'')))
     = [centralNode (str ''Diabetes Mellitus'')]"
   and b: "\<forall>n \<in> set (tl (nodes (processConcepts tenConcepts (str ''Diabetes Mellitus'')))).
        \<lparr> source = Id (id_n (centralNode (str ''Diabetes Mellitus''))), target = Id (id_n n) \<rparr>
          \<in> set (links (processConcepts tenConcepts (str ''Diabetes Mellitus'')))"
    using rel by blast+
  from b mem idn idc show ?thesis using a by metis
qed

text \<open>
  C2 as stated fails: a returned concept with relation \<open>Central Topic\<close> gives a graph with
  two nodes of that relation.
\<close>

theorem central_relation_not_unique:
  "length (filter (\<lambda>n. relation (data n) = str ''Central Topic'')
       (nodes (processConcepts [sampleConcept ''Insulin'' ''Central Topic'']
                 (str ''Diabetes Mellitus'')))) = 2
   \<and> length (filter (\<lambda>n. relation (data n) = str ''Central Topic'')
       (nodes (processConcepts [sampleConcept ''Insulin'' ''Central Topic'']
                 (str ''Diabetes Mellitus'')))) \<noteq> 1"
  by (simp add: central_relation_count sampleConcept_def)

section \<open>Stable link identity\<close>

text \<open>
  C3. \<open>getStableLinkId\<close> is the source id, a hyphen and the target id, where the id of an
  endpoint is the bare string or the \<open>id\<close> field of the resolved node. Two links whose
  endpoints stand for the same ids have the same identity, and the four ways of writing
  the link from node \<open>n\<close> to node \<open>m\<close> all give the same string.
\<close>

theorem getStableLinkId_normalised:
  "getStableLinkId d = endpointId (source d) @ str ''-'' @ endpointId (target d)
   \<and> (endpointId (source d) = endpointId (source d') \<and> endpointId (target d) = endpointId (target d')
        \<longrightarrow> getStableLinkId d = getStableLinkId d')
   \<and> getStableLinkId \<lparr> source = Id (id_n n), target = Id (id_n m) \<rparr> = id_n n @ str ''-'' @ id_n m
   \<and> getStableLinkId \<lparr> source = Resolved n, target = Resolved m \<rparr> = id_n n @ str ''-'' @ id_n m
   \<and> getStableLinkId \<lparr> source = Id (id_n n), target = Resolved m \<rparr> = id_n n @ str ''-'' @ id_n m
   \<and> getStableLinkId \<lparr> source = Resolved n, target = Id (id_n m) \<rparr> = id_n n @ str ''-'' @ id_n m"
proof -
  have eq: "getStableLinkId l = endpointId (source l) @ str ''-'' @ endpointId (target l)" for l
    by (cases "source l"; cases "target l") (simp_all add: getStableLinkId_def)
  show ?thesis
    by (simp add: eq)
qed

text \<open>C3 on the link from the central node to a concept node, resolved and bare.\<close>

theorem getStableLinkId_normalised_witness:
  "getStableLinkId \<lparr> source = Resolved (centralNode (str ''Diabetes Mellitus'')),
                     target = Resolved (conceptNode (sampleConcept ''Insulin'' ''treatment'')) \<rparr>
     = getStableLinkId \<lparr> source = Id (str ''Diabetes Mellitus''), target = Id (str ''Insulin'') \<rparr>
   \<and> getStableLinkId \<lparr> source = Id (str ''Diabetes Mellitus''), target = Id (str ''Insulin'') \<rparr>
     = str ''Diabetes Mellitus-Insulin''"
proof -
  have ids: "endpointId (Resolved (centralNode (str ''Diabetes Mellitus''))) = endpointId (Id (str ''Diabetes Mellitus''))"
    "endpointId (Resolved (conceptNode (sampleConcept ''Insulin'' ''treatment''))) = endpointId (Id (str ''Insulin''))"
    by (simp_all add: centralNode_def conceptNode_def sampleConcept_def)
  have cat: "str ''Diabetes Mellitus'' @ str ''-'' @ str ''Insulin'' = str ''Diabetes Mellitus-Insulin''"
    by (simp add: str_def)
  show ?thesis
    using getStableLinkId_normalised
      [of "\<lparr> source = Resolved (centralNode (str ''Diabetes Mellitus'')),
             target = Resolved (conceptNode (sampleConcept ''Insulin'' ''treatment'')) \<rparr>"
          "\<lparr> source = Id (str ''Diabetes Mellitus''), target = Id (str ''Insulin'') \<rparr>"]
      getStableLinkId_normalised
      [of "\<lparr> source = Id (str ''Diabetes Mellitus''), target = Id (str ''Insulin'') \<rparr>"]
      ids cat
    by simp
qed

section \<open>Searching: handleGenerateMap\<close>

lemma trim_all_whitespace:
  assumes "\<forall>c \<in> set s. isWhiteSpace c"
  shows "trim s = []"
proof -
  from assms have front: "dropWhile isWhiteSpace s = []"
    by simp
  show ?thesis
    by (simp only: trim_def front rev.simps dropWhile.simps)
qed

lemma trim_no_outer_whitespace:
  assumes "s \<noteq> []" and "\<not> isWhiteSpace (hd s)" and "\<not> isWhiteSpace (last s)"
  shows "trim s = s"
proof -
  from assms(1,2) have front: "dropWhile isWhiteSpace s = s"
    by (cases s) simp_all
  from assms(1,3) have rear: "dropWhile isWhiteSpace (rev s) = rev s"
    by (cases "rev s") (simp_all add: last_rev [symmetric] hd_rev)
  show ?thesis
    by (simp add: trim_def front rear)
qed

lemma DEFAULT_TOPIC_nonempty: "DEFAULT_TOPIC \<noteq> []"
  by (simp add: DEFAULT_TOPIC_def str_def)

lemma trim_DEFAULT_TOPIC: "trim DEFAULT_TOPIC = DEFAULT_TOPIC"
  by (rule trim_no_outer_whitespace)
     (simp_all add: DEFAULT_TOPIC_def str_def isWhiteSpace_def)

lemma topicToUse_empty: "topicToUse [] = DEFAULT_TOPIC"
  by (simp add: topicToUse_def trim_DEFAULT_TOPIC)

lemma topicToUse_whitespace:
  "currentTopic \<noteq> [] \<Longrightarrow> \<forall>c \<in> set currentTopic. isWhiteSpace c \<Longrightarrow> topicToUse currentTopic = []"
  by (simp add: topicToUse_def trim_all_whitespace)

lemma handleGenerateMap_request:
  "topicToUse currentTopic \<noteq> [] \<Longrightarrow>
   handleGenerateMap g currentTopic a s =
     handleGenerateMap_settle (topicToUse currentTopic) a (g (topicToUse currentTopic))
       (s\<lparr> topic := topicToUse currentTopic, isLoading := True, selectedNode := None,
           apiError := None \<rparr>)"
  by (simp add: handleGenerateMap_def handleGenerateMap_begin_def Let_def)

lemma settle_failure:
  "graphData (handleGenerateMap_settle t a (Inl e) s) = emptyGraph
   \<and> searchHistory (handleGenerateMap_settle t a (Inl e) s) = searchHistory s
   \<and> apiError (handleGenerateMap_settle t a (Inl e) s) = Some mapErrorMessage
   \<and> isLoading (handleGenerateMap_settle t a (Inl e) s) = False"
  by (simp add: handleGenerateMap_settle_def)

lemma settle_success_history:
  "searchHistory (handleGenerateMap_settle t True (Inr cs) s)
     = take 10 (newHistory t (searchHistory s))"
  by (simp add: handleGenerateMap_settle_def Let_def)

lemma settle_success_graph:
  "graphData (handleGenerateMap_settle t a (Inr cs) s) = processConcepts cs t"
  by (simp add: handleGenerateMap_settle_def Let_def)

lemma handleGenerateMap_success_history:
  assumes "topicToUse currentTopic = t" and "t \<noteq> []" and "g t = Inr cs"
  shows "searchHistory (handleGenerateMap g currentTopic True s)
           = take 10 (newHistory t (searchHistory s))"
  using assms by (simp add: handleGenerateMap_request settle_success_history)

lemma newHistory_take:
  "take 10 (newHistory t h) = t # take 9 (filter (\<lambda>x. x \<noteq> t) h)"
  by (simp add: newHistory_def)

lemma newHistory_idem:
  "take 10 (newHistory t (take 10 (newHistory t h))) = take 10 (newHistory t h)"
proof -
  have "filter (\<lambda>x. x \<noteq> t) (take 9 (filter (\<lambda>x. x \<noteq> t) h)) = take 9 (filter (\<lambda>x. x \<noteq> t) h)"
    by (rule filter_True) (auto dest: in_set_takeD)
  then show ?thesis
    by (simp add: newHistory_take) (simp add: newHistory_def)?
qed

lemma newHistory_count: "count_list (take 10 (newHistory t h)) t = 1"
proof -
  have "t \<notin> set (take 9 (filter (\<lambda>x. x \<noteq> t) h))"
    by (auto dest: in_set_takeD)
  then show ?thesis
    by (simp add: newHistory_take count_list_0_iff)
qed

lemma mapErrorMessage_nonempty: "mapErrorMessage \<noteq> []"
  by (simp add: mapErrorMessage_def str_def)

lemma topicToUse_DEFAULT_TOPIC: "topicToUse DEFAULT_TOPIC = DEFAULT_TOPIC"
  by (simp add: topicToUse_def trim_DEFAULT_TOPIC)

text \<open>
  C4. When the search issues its request (the topic to use is not empty) and the map
  service throws, then after the call the displayed graph is the empty graph, the search
  history is what it was before the call, and the error message is set to a non-empty
  text. The same holds
  for the continuation alone, in whatever state the rejection finds: it keeps that
  state's history, so nothing of the failed search is retained.
\<close>

theorem failed_search_clears_graph:
  assumes "topicToUse currentTopic \<noteq> []"
    and "generateMedicalMap (topicToUse currentTopic) = Inl e"
  shows "graphData (handleGenerateMap generateMedicalMap currentTopic addToHistory s)
           = \<lparr> nodes = [], links = [] \<rparr>
         \<and> searchHistory (handleGenerateMap generateMedicalMap currentTopic addToHistory s)
           = searchHistory s
         \<and> apiError (handleGenerateMap generateMedicalMap currentTopic addToHistory s)
           = Some mapErrorMessage
         \<and> apiError (handleGenerateMap generateMedicalMap currentTopic addToHistory s) \<noteq> None
         \<and> graphData (handleGenerateMap_settle t' addToHistory (Inl e') s') = \<lparr> nodes = [], links = [] \<rparr>
         \<and> searchHistory (handleGenerateMap_settle t' addToHistory (Inl e') s') = searchHistory s'
         \<and> apiError (handleGenerateMap_settle t' addToHistory (Inl e') s') = Some mapErrorMessage
         \<and> mapErrorMessage \<noteq> []"
  using assms
  by (simp add: handleGenerateMap_request settle_failure emptyGraph_def mapErrorMessage_nonempty)

text \<open>C4 on a state with a displayed graph and three history entries.\<close>

theorem failed_search_clears_graph_witness:
  "graphData (handleGenerateMap (\<lambda>t. Inl (Thrown (str ''quota''))) DEFAULT_TOPIC True sampleState)
     = \<lparr> nodes = [], links = [] \<rparr>
   \<and> searchHistory (handleGenerateMap (\<lambda>t. Inl (Thrown (str ''quota''))) DEFAULT_TOPIC True sampleState)
     = [str ''Asthma'', str ''Diabetes Mellitus'', str ''Stroke'']
   \<and> apiError (handleGenerateMap (\<lambda>t. Inl (Thrown (str ''quota''))) DEFAULT_TOPIC True sampleState)
     \<noteq> None"
proof -
  have t: "topicToUse DEFAULT_TOPIC \<noteq> []"
    by (simp add: topicToUse_DEFAULT_TOPIC DEFAULT_TOPIC_nonempty)
  have h: "searchHistory sampleState = [str ''Asthma'', str ''Diabetes Mellitus'', str ''Stroke'']"
    by (simp add: sampleState_def)
  show ?thesis
    using failed_search_clears_graph
      [of DEFAULT_TOPIC "\<lambda>t. Inl (Thrown (str ''quota''))" "Thrown (str ''quota'')" True sampleState,
       OF t refl] h
    by simp
qed

text \<open>
  C5. On a successful search with \<open>addToHistory\<close> on, where \<open>t\<close> is the topic searched
  (the input after defaulting and trimming), the new history is \<open>t\<close> followed by the
  first nine of the prior entries other than \<open>t\<close>, in their prior order: \<open>t\<close> is its head
  and occurs exactly once, and the length is at most 10. Searching the same topic again
  leaves this history as it is. For a non-empty input without outer whitespace the topic
  searched is the input itself.
\<close>

theorem history_front_dedup_cap:
  assumes "topicToUse currentTopic = t" and "t \<noteq> []"
    and "generateMedicalMap t = Inr concepts"
    and "h' = searchHistory (handleGenerateMap generateMedicalMap currentTopic True s)"
  shows "h' = t # take 9 (filter (\<lambda>x. x \<noteq> t) (searchHistory s))
         \<and> hd h' = t
         \<and> count_list h' t = 1
         \<and> tl h' = take 9 (filter (\<lambda>x. x \<noteq> t) (searchHistory s))
         \<and> length h' \<le> 10
         \<and> (\<forall>again concepts'. again t = Inr concepts' \<longrightarrow>
              searchHistory (handleGenerateMap again currentTopic True
                 (handleGenerateMap generateMedicalMap currentTopic True s)) = h')
         \<and> (currentTopic \<noteq> [] \<and> trim currentTopic = currentTopic \<longrightarrow> t = currentTopic)"
proof -
  have verbatim: "t = currentTopic" if "currentTopic \<noteq> []" "trim currentTopic = currentTopic"
    using that assms(1) by (simp add: topicToUse_def)
  have h': "h' = take 10 (newHistory t (searchHistory s))"
    unfolding assms(4) using assms(1-3) by (rule handleGenerateMap_success_history)
  have twice: "searchHistory (handleGenerateMap again currentTopic True
                 (handleGenerateMap generateMedicalMap currentTopic True s)) = h'"
    if "again t = Inr concepts'" for again concepts'
  proof -
    have "searchHistory (handleGenerateMap again currentTopic True
                 (handleGenerateMap generateMedicalMap currentTopic True s))
            = take 10 (newHistory t (searchHistory
                 (handleGenerateMap generateMedicalMap currentTopic True s)))"
      using assms(1,2) that by (rule handleGenerateMap_success_history)
    also have "\<dots> = take 10 (newHistory t h')"
      by (simp only: assms(4))
    also have "\<dots> = h'"
      unfolding h' by (rule newHistory_idem)
    finally show ?thesis .
  qed
  have cnt: "count_list h' t = 1"
    unfolding h' by (rule newHistory_count)
  have shape: "h' = t # take 9 (filter (\<lambda>x. x \<noteq> t) (searchHistory s))"
    unfolding h' by (rule newHistory_take)
  have len: "length h' \<le> 10"
    unfolding h' by simp
  have front: "hd h' = t" and rest: "tl h' = take 9 (filter (\<lambda>x. x \<noteq> t) (searchHistory s))"
    by (simp_all add: shape)
  from shape front cnt rest len twice verbatim show ?thesis
    by blast
qed

text \<open>C5 on a history that already holds the topic in second place.\<close>

theorem history_front_dedup_cap_witness:
  "searchHistory (handleGenerateMap (\<lambda>t. Inr tenConcepts) DEFAULT_TOPIC True sampleState)
     = [DEFAULT_TOPIC, str ''Asthma'', str ''Stroke'']
   \<and> count_list (searchHistory (handleGenerateMap (\<lambda>t. Inr tenConcepts) DEFAULT_TOPIC True sampleState))
        DEFAULT_TOPIC = 1"
proof -
  have t: "DEFAULT_TOPIC \<noteq> []"
    by (rule DEFAULT_TOPIC_nonempty)
  have h: "take 9 (filter (\<lambda>x. x \<noteq> DEFAULT_TOPIC) (searchHistory sampleState))
             = [str ''Asthma'', str ''Stroke'']"
    by (simp add: sampleState_def DEFAULT_TOPIC_def str_eq_iff)
  from history_front_dedup_cap
      [of DEFAULT_TOPIC DEFAULT_TOPIC "\<lambda>t. Inr tenConcepts" tenConcepts _ sampleState,
       OF topicToUse_DEFAULT_TOPIC t refl refl]
  have "searchHistory (handleGenerateMap (\<lambda>t. Inr tenConcepts) DEFAULT_TOPIC True sampleState)
          = DEFAULT_TOPIC # take 9 (filter (\<lambda>x. x \<noteq> DEFAULT_TOPIC) (searchHistory sampleState))"
    and "count_list (searchHistory (handleGenerateMap (\<lambda>t. Inr tenConcepts) DEFAULT_TOPIC True sampleState))
          DEFAULT_TOPIC = 1"
    by blast+
  then show ?thesis
    by (simp only: h)
qed

text \<open>
  C10. For a non-empty input of whitespace only, \<open>handleGenerateMap\<close> returns before any
  request: no request is issued and the whole state (graph, history, loading flag,
  selection, error message and everything else) is unchanged. The empty input instead
  becomes the default topic, for which the request is issued.
\<close>

theorem whitespace_topic_is_ignored:
  "(currentTopic \<noteq> [] \<and> (\<forall>c \<in> set currentTopic. isWhiteSpace c) \<longrightarrow>
      handleGenerateMap_begin currentTopic s = (s, None)
      \<and> handleGenerateMap generateMedicalMap currentTopic addToHistory s = s)
   \<and> handleGenerateMap_begin [] s =
       (s\<lparr> topic := DEFAULT_TOPIC, isLoading := True, selectedNode := None, apiError := None \<rparr>,
        Some DEFAULT_TOPIC)
   \<and> handleGenerateMap generateMedicalMap [] addToHistory s =
       handleGenerateMap_settle DEFAULT_TOPIC addToHistory (generateMedicalMap DEFAULT_TOPIC)
         (s\<lparr> topic := DEFAULT_TOPIC, isLoading := True, selectedNode := None, apiError := None \<rparr>)"
proof -
  have ws: "handleGenerateMap_begin currentTopic s = (s, None)
      \<and> handleGenerateMap generateMedicalMap currentTopic addToHistory s = s"
    if "currentTopic \<noteq> []" "\<forall>c \<in> set currentTopic. isWhiteSpace c"
    using topicToUse_whitespace [OF that]
    by (simp add: handleGenerateMap_def handleGenerateMap_begin_def)
  have empty: "handleGenerateMap_begin [] s =
       (s\<lparr> topic := DEFAULT_TOPIC, isLoading := True, selectedNode := None, apiError := None \<rparr>,
        Some DEFAULT_TOPIC)"
    by (simp add: handleGenerateMap_begin_def topicToUse_empty DEFAULT_TOPIC_nonempty)
  show ?thesis
    using ws empty by (simp add: handleGenerateMap_def)
qed

text \<open>C10 on the input made of a space, a tab and a no-break space.\<close>

theorem whitespace_topic_is_ignored_witness:
  "handleGenerateMap (\<lambda>t. Inr tenConcepts) [0x0020, 0x0009, 0x00A0] True sampleState = sampleState
   \<and> handleGenerateMap_begin [0x0020, 0x0009, 0x00A0] sampleState = (sampleState, None)"
proof -
  have ws: "[0x0020, 0x0009, 0x00A0 :: 16 word] \<noteq> []
            \<and> (\<forall>c \<in> set [0x0020, 0x0009, 0x00A0 :: 16 word]. isWhiteSpace c)"
    by (simp add: isWhiteSpace_def)
  show ?thesis
    using whitespace_topic_is_ignored
      [of "[0x0020, 0x0009, 0x00A0]" sampleState "\<lambda>t. Inr tenConcepts" True] ws
    by blast
qed

section \<open>Collision radius\<close>

lemma sqrt_30_40: "sqrt ((30::real)\<^sup>2 + 40\<^sup>2) = 50"
  by (rule real_sqrt_unique) simp_all

lemma max_le_diagonal:
  assumes "0 \<le> w" and "0 \<le> h"
  shows "max w h \<le> sqrt (w\<^sup>2 + h\<^sup>2)"
proof -
  have "w = sqrt (w\<^sup>2)" and "h = sqrt (h\<^sup>2)"
    using assms by simp_all
  moreover have "sqrt (w\<^sup>2) \<le> sqrt (w\<^sup>2 + h\<^sup>2)" and "sqrt (h\<^sup>2) \<le> sqrt (w\<^sup>2 + h\<^sup>2)"
    by (simp_all del: real_sqrt_abs)
  ultimately show ?thesis
    by (metis max.bounded_iff)
qed

text \<open>
  C6, as the code has it. For a node with width \<open>w\<close> and height \<open>h\<close> the collision radius is
  half the larger of \<open>w\<close> and \<open>h\<close>, plus 8, with the accessor installed at initialization
  and with the one installed after each data change alike. A missing dimension counts as
  0: with no width the radius is half the larger of 0 and \<open>h\<close>, plus 8, with no height
  half the larger of \<open>w\<close> and 0, plus 8, and with neither it is 8. After measuring a label
  whose text box is \<open>bw\<close> by \<open>bh\<close> the radius is half the larger of \<open>bw + 24\<close> and
  \<open>bh + 16\<close>, plus 8, and 38 for the fallback size. For non-negative sizes the radius is
  at most the half-diagonal plus 8.
\<close>

theorem collide_radius_half_larger_side:
  "(width d = Some w \<and> height d = Some h \<longrightarrow>
      collideRadius_init d = max w h / 2 + 8 \<and> collideRadius_refresh d = max w h / 2 + 8)
   \<and> (width d = None \<and> height d = Some h \<longrightarrow>
        collideRadius_init d = max 0 h / 2 + 8 \<and> collideRadius_refresh d = max 0 h / 2 + 8)
   \<and> (width d = Some w \<and> height d = None \<longrightarrow>
        collideRadius_init d = max w 0 / 2 + 8 \<and> collideRadius_refresh d = max w 0 / 2 + 8)
   \<and> (width d = None \<and> height d = None \<longrightarrow>
        collideRadius_init d = 8 \<and> collideRadius_refresh d = 8)
   \<and> collideRadius_init (measureNode (Some (bw, bh)) d) = max (bw + 24) (bh + 16) / 2 + 8
   \<and> collideRadius_refresh (measureNode (Some (bw, bh)) d) = max (bw + 24) (bh + 16) / 2 + 8
   \<and> collideRadius_init (measureNode None d) = 38
   \<and> collideRadius_refresh (measureNode None d) = 38
   \<and> (width d = Some w \<and> height d = Some h \<and> 0 \<le> w \<and> 0 \<le> h \<longrightarrow>
        collideRadius_init d \<le> halfDiagonal w h + 8
        \<and> collideRadius_refresh d \<le> halfDiagonal w h + 8)"
proof -
  have bound: "max w h / 2 + 8 \<le> halfDiagonal w h + 8" if "0 \<le> w" "0 \<le> h"
    using max_le_diagonal [OF that] by (simp add: halfDiagonal_def)
  show ?thesis
    using bound
    by (simp add: collideRadius_init_def collideRadius_refresh_def measureNode_def orZero_def
          PADDING_X_def PADDING_Y_def)
qed

text \<open>
  C6 on a node whose label measures 6 by 24, hence 30 by 40 with the padding; on the same
  node before it is measured, with neither dimension; and on nodes with one dimension
  only.
\<close>

theorem collide_radius_half_larger_side_witness:
  "collideRadius_init (measureNode (Some (6, 24)) insulinNode) = 28
   \<and> collideRadius_refresh (measureNode (Some (6, 24)) insulinNode) = 28
   \<and> collideRadius_init (measureNode (Some (6, 24)) insulinNode) \<le> halfDiagonal 30 40 + 8
   \<and> collideRadius_init insulinNode = 8
   \<and> collideRadius_refresh insulinNode = 8
   \<and> collideRadius_init (insulinNode\<lparr> height := Some 40 \<rparr>) = 28
   \<and> collideRadius_refresh (insulinNode\<lparr> height := Some 40 \<rparr>) = 28
   \<and> collideRadius_init (insulinNode\<lparr> width := Some 30 \<rparr>) = 23
   \<and> collideRadius_refresh (insulinNode\<lparr> width := Some 30 \<rparr>) = 23"
proof -
  have dims: "width (measureNode (Some (6, 24)) insulinNode) = Some 30
              \<and> height (measureNode (Some (6, 24)) insulinNode) = Some 40
              \<and> (0::real) \<le> 30 \<and> (0::real) \<le> 40"
    by (simp add: measureNode_def PADDING_X_def PADDING_Y_def)
  have none: "width insulinNode = None \<and> height insulinNode = None"
    by (simp add: insulinNode_def conceptNode_def)
  have no_width: "width (insulinNode\<lparr> height := Some 40 \<rparr>) = None
                  \<and> height (insulinNode\<lparr> height := Some 40 \<rparr>) = Some 40"
    by (simp add: insulinNode_def conceptNode_def)
  have no_height: "width (insulinNode\<lparr> width := Some 30 \<rparr>) = Some 30
                   \<and> height (insulinNode\<lparr> width := Some 30 \<rparr>) = None"
    by (simp add: insulinNode_def conceptNode_def)
  have measured: "collideRadius_init (measureNode (Some (6, 24)) insulinNode) = 28
   \<and> collideRadius_refresh (measureNode (Some (6, 24)) insulinNode) = 28
   \<and> collideRadius_init (measureNode (Some (6, 24)) insulinNode) \<le> halfDiagonal 30 40 + 8"
    using collide_radius_half_larger_side
      [of "measureNode (Some (6, 24)) insulinNode" 30 40 6 24] dims
    by simp
  have unmeasured: "collideRadius_init insulinNode = 8 \<and> collideRadius_refresh insulinNode = 8"
    using collide_radius_half_larger_side [of insulinNode 0 0 0 0] none
    by simp
  have height_only: "collideRadius_init (insulinNode\<lparr> height := Some 40 \<rparr>) = 28
                     \<and> collideRadius_refresh (insulinNode\<lparr> height := Some 40 \<rparr>) = 28"
    using collide_radius_half_larger_side [of "insulinNode\<lparr> height := Some 40 \<rparr>" 0 40 0 0]
      no_width
    by simp
  have width_only: "collideRadius_init (insulinNode\<lparr> width := Some 30 \<rparr>) = 23
                    \<and> collideRadius_refresh (insulinNode\<lparr> width := Some 30 \<rparr>) = 23"
    using collide_radius_half_larger_side [of "insulinNode\<lparr> width := Some 30 \<rparr>" 30 0 0 0]
      no_height
    by simp
  from measured unmeasured height_only width_only show ?thesis
    by simp
qed

text \<open>
  C6 as stated fails: for the 30 by 40 node the half-diagonal plus 8 is 33, the radius of
  the code is 28.
\<close>

theorem collide_radius_not_half_diagonal:
  "width (measureNode (Some (6, 24)) insulinNode) = Some 30
   \<and> height (measureNode (Some (6, 24)) insulinNode) = Some 40
   \<and> collideRadius_init (measureNode (Some (6, 24)) insulinNode) = 28
   \<and> collideRadius_refresh (measureNode (Some (6, 24)) insulinNode) = 28
   \<and> halfDiagonal 30 40 + 8 = 33
   \<and> collideRadius_init (measureNode (Some (6, 24)) insulinNode) \<noteq> halfDiagonal 30 40 + 8"
  by (simp add: collideRadius_init_def collideRadius_refresh_def measureNode_def orZero_def
        PADDING_X_def PADDING_Y_def halfDiagonal_def sqrt_30_40)

section \<open>Events of the panel\<close>

lemma handleNodeClick_new:
  assumes "selectedNode s \<noteq> Some n"
  shows "handleNodeClick n s =
           (s\<lparr> selectedNode := Some n, imageUrl := None, quiz := None, selectedAnswer := None,
               isAnswerSubmitted := False, flashcards := [], currentFlashcardIndex := 0,
               isFlashcardFlipped := False, apiError := None, isImageLoading := True \<rparr>,
            Some (concept (data n)))"
  using assms by (simp add: handleNodeClick_def selectionEffect_def)

lemma step_NodeClick_new:
  assumes "selectedNode s \<noteq> Some n"
  shows "step (NodeClick n) (s, p) =
           (s\<lparr> selectedNode := Some n, imageUrl := None, quiz := None, selectedAnswer := None,
               isAnswerSubmitted := False, flashcards := [], currentFlashcardIndex := 0,
               isFlashcardFlipped := False, apiError := None, isImageLoading := True \<rparr>,
            p @ [ImageReq (concept (data n))])"
  by (simp add: handleNodeClick_new [OF assms])

lemma step_GenerateQuizClick:
  assumes "selectedNode s = Some n" and "\<not> isQuizLoading s"
  shows "step GenerateQuizClick (s, p) =
           (s\<lparr> isQuizLoading := True, quiz := None, selectedAnswer := None,
               isAnswerSubmitted := False, apiError := None \<rparr>,
            p @ [QuizReq (data n)])"
  using assms by (simp add: handleGenerateQuiz_begin_def)

lemma step_GenerateFlashcardClick:
  assumes "selectedNode s = Some n" and "\<not> isFlashcardLoading s"
  shows "step GenerateFlashcardClick (s, p) =
           (s\<lparr> isFlashcardLoading := True, isFlashcardFlipped := False, apiError := None \<rparr>,
            p @ [FlashcardReq (data n) (flashcards s)])"
  using assms by (simp add: handleGenerateFlashcard_begin_def)

lemma insulin_neq_obesity: "insulinNode \<noteq> obesityNode"
proof
  assume "insulinNode = obesityNode"
  then have "id_n insulinNode = id_n obesityNode" by simp
  then show False
    by (simp add: insulinNode_def obesityNode_def conceptNode_def sampleConcept_def str_eq_iff)
qed

section \<open>Flashcards\<close>





text \<open>
  C9. When the current index is below the last position, the handler of the next control
  subtracts one from the index (it does not add one), resets the flip and leaves the
  cards alone; at index 0 with two or more cards the index becomes -1.
\<close>

theorem next_flashcard_pages_backward:
  "(currentFlashcardIndex s < int (length (flashcards s)) - 1 \<longrightarrow>
      currentFlashcardIndex (handleNextFlashcard s) = currentFlashcardIndex s - 1
      \<and> currentFlashcardIndex (handleNextFlashcard s) \<noteq> currentFlashcardIndex s + 1
      \<and> isFlashcardFlipped (handleNextFlashcard s) = False
      \<and> flashcards (handleNextFlashcard s) = flashcards s)
   \<and> (currentFlashcardIndex s = 0 \<and> 2 \<le> length (flashcards s) \<longrightarrow>
        currentFlashcardIndex (handleNextFlashcard s) = - 1)"
  by (simp add: handleNextFlashcard_def)

text \<open>C9 at index 0 with two cards.\<close>

theorem next_flashcard_pages_backward_witness:
  "currentFlashcardIndex (handleNextFlashcard
      (initialState\<lparr> selectedNode := Some insulinNode,
                     flashcards := [sampleCard ''first question'', sampleCard ''another question''],
                     currentFlashcardIndex := 0 \<rparr>)) = - 1"
  using next_flashcard_pages_backward
    [of "initialState\<lparr> selectedNode := Some insulinNode,
                     flashcards := [sampleCard ''first question'', sampleCard ''another question''],
                     currentFlashcardIndex := 0 \<rparr>"]
  by simp

section \<open>Responses that arrive after the selection changed\<close>

lemma late_image:
  assumes "a \<noteq> b" and "selectedNode s \<noteq> Some a"
  shows "snd (run [NodeClick a, NodeClick b] (s, p)) ! length p = ImageReq (concept (data a))
         \<and> imageUrl (fst (run [NodeClick a, NodeClick b] (s, p))) = None
         \<and> isImageLoading (fst (run [NodeClick a, NodeClick b] (s, p))) = True
         \<and> selectedNode (fst (run [NodeClick a, NodeClick b, Complete (length p) (ImageResp url)] (s, p)))
             = Some b
         \<and> imageUrl (fst (run [NodeClick a, NodeClick b, Complete (length p) (ImageResp url)] (s, p)))
             = url
         \<and> isImageLoading (fst (run [NodeClick a, NodeClick b, Complete (length p) (ImageResp url)] (s, p)))
             = False"
  using assms
  by (simp del: step.simps add: step_NodeClick_new step.simps(4) dropRequest_def nth_append getImage_settle_def)

lemma late_quiz:
  assumes "a \<noteq> b" and "selectedNode s \<noteq> Some a" and "\<not> isQuizLoading s"
  shows "snd (run [NodeClick a, GenerateQuizClick, NodeClick b] (s, p)) ! (length p + 1)
           = QuizReq (data a)
         \<and> quiz (fst (run [NodeClick a, GenerateQuizClick, NodeClick b] (s, p))) = None
         \<and> selectedNode (fst (run [NodeClick a, GenerateQuizClick, NodeClick b,
                                    Complete (length p + 1) (QuizResp (Inr q))] (s, p))) = Some b
         \<and> quiz (fst (run [NodeClick a, GenerateQuizClick, NodeClick b,
                           Complete (length p + 1) (QuizResp (Inr q))] (s, p))) = Some q
         \<and> isQuizLoading (fst (run [NodeClick a, GenerateQuizClick, NodeClick b,
                           Complete (length p + 1) (QuizResp (Inr q))] (s, p))) = False"
  using assms
  by (simp del: step.simps add: step_NodeClick_new step_GenerateQuizClick step.simps(4) dropRequest_def nth_append handleGenerateQuiz_settle_def)

lemma late_flashcard:
  assumes "a \<noteq> b" and "selectedNode s \<noteq> Some a" and "\<not> isFlashcardLoading s"
  shows "snd (run [NodeClick a, GenerateFlashcardClick, NodeClick b] (s, p)) ! (length p + 1)
           = FlashcardReq (data a) []
         \<and> flashcards (fst (run [NodeClick a, GenerateFlashcardClick, NodeClick b] (s, p))) = []
         \<and> selectedNode (fst (run [NodeClick a, GenerateFlashcardClick, NodeClick b,
                                    Complete (length p + 1) (FlashcardResp (Inr c))] (s, p))) = Some b
         \<and> flashcards (fst (run [NodeClick a, GenerateFlashcardClick, NodeClick b,
                                 Complete (length p + 1) (FlashcardResp (Inr c))] (s, p))) = [c]
         \<and> isFlashcardLoading (fst (run [NodeClick a, GenerateFlashcardClick, NodeClick b,
                                 Complete (length p + 1) (FlashcardResp (Inr c))] (s, p))) = False"
  using assms
  by (simp del: step.simps add: step_NodeClick_new step_GenerateFlashcardClick step.simps(4)
        dropRequest_def nth_append handleGenerateFlashcard_settle_def)

lemma selection_resets:
  assumes "selectedNode s0 \<noteq> Some b"
  shows "selectedNode (fst (step (NodeClick b) (s0, p0))) = Some b
         \<and> imageUrl (fst (step (NodeClick b) (s0, p0))) = None
         \<and> isImageLoading (fst (step (NodeClick b) (s0, p0))) = True
         \<and> quiz (fst (step (NodeClick b) (s0, p0))) = None
         \<and> selectedAnswer (fst (step (NodeClick b) (s0, p0))) = None
         \<and> isAnswerSubmitted (fst (step (NodeClick b) (s0, p0))) = False
         \<and> flashcards (fst (step (NodeClick b) (s0, p0))) = []
         \<and> currentFlashcardIndex (fst (step (NodeClick b) (s0, p0))) = 0
         \<and> isFlashcardFlipped (fst (step (NodeClick b) (s0, p0))) = False"
  by (simp del: step.simps add: step_NodeClick_new [OF assms])

lemma delivery_ignores_selection:
  assumes "k < length p0"
  shows "(p0 ! k = ImageReq c0 \<longrightarrow>
            fst (step (Complete k (ImageResp url)) (s0, p0))
              = s0\<lparr> imageUrl := url, isImageLoading := False \<rparr>)
         \<and> (p0 ! k = QuizReq mc \<longrightarrow>
            fst (step (Complete k (QuizResp (Inr q))) (s0, p0))
              = s0\<lparr> quiz := Some q, isQuizLoading := False \<rparr>)
         \<and> (p0 ! k = FlashcardReq mc captured \<longrightarrow>
            fst (step (Complete k (FlashcardResp (Inr c))) (s0, p0))
              = s0\<lparr> flashcards := flashcards s0 @ [c],
                     currentFlashcardIndex := int (length captured),
                     isFlashcardLoading := False \<rparr>)"
  using assms
  by (simp add: getImage_settle_def handleGenerateQuiz_settle_def
        handleGenerateFlashcard_settle_def)

text \<open>
  C7, as the code has it. Selecting a node other than the selected one resets the image,
  the quiz, the chosen answer and the flashcards with their index, whatever they were,
  and starts loading the image: nothing that arrived before survives. Now let node \<open>a\<close>
  be selected, a request issued for it, and then a different node \<open>b\<close> selected. The
  request issued for \<open>a\<close> is still in flight, and when its response arrives afterwards it
  is not discarded: with \<open>b\<close> selected, the image response sets the image url and clears
  the image-loading flag, the quiz response sets the quiz and the flashcard response
  appends its card, each clearing its loading flag. (The two buttons are enabled when
  the trace starts.) In general a response delivered to a request in flight is applied
  to the state as it is, whichever node is selected in it.
\<close>

theorem late_responses_are_applied:
  assumes "a \<noteq> b" and "selectedNode s \<noteq> Some a"
    and "\<not> isQuizLoading s" and "\<not> isFlashcardLoading s"
  shows "snd (run [NodeClick a, NodeClick b] (s, p)) ! length p = ImageReq (concept (data a))
         \<and> imageUrl (fst (run [NodeClick a, NodeClick b] (s, p))) = None
         \<and> isImageLoading (fst (run [NodeClick a, NodeClick b] (s, p))) = True
         \<and> selectedNode (fst (run [NodeClick a, NodeClick b, Complete (length p) (ImageResp url)] (s, p)))
             = Some b
         \<and> imageUrl (fst (run [NodeClick a, NodeClick b, Complete (length p) (ImageResp url)] (s, p)))
             = url
         \<and> isImageLoading (fst (run [NodeClick a, NodeClick b, Complete (length p) (ImageResp url)] (s, p)))
             = False
         \<and> snd (run [NodeClick a, GenerateQuizClick, NodeClick b] (s, p)) ! (length p + 1)
             = QuizReq (data a)
         \<and> quiz (fst (run [NodeClick a, GenerateQuizClick, NodeClick b] (s, p))) = None
         \<and> selectedNode (fst (run [NodeClick a, GenerateQuizClick, NodeClick b,
                                    Complete (length p + 1) (QuizResp (Inr q))] (s, p))) = Some b
         \<and> quiz (fst (run [NodeClick a, GenerateQuizClick, NodeClick b,
                           Complete (length p + 1) (QuizResp (Inr q))] (s, p))) = Some q
         \<and> isQuizLoading (fst (run [NodeClick a, GenerateQuizClick, NodeClick b,
                           Complete (length p + 1) (QuizResp (Inr q))] (s, p))) = False
         \<and> snd (run [NodeClick a, GenerateFlashcardClick, NodeClick b] (s, p)) ! (length p + 1)
             = FlashcardReq (data a) []
         \<and> flashcards (fst (run [NodeClick a, GenerateFlashcardClick, NodeClick b] (s, p))) = []
         \<and> selectedNode (fst (run [NodeClick a, GenerateFlashcardClick, NodeClick b,
                                    Complete (length p + 1) (FlashcardResp (Inr c))] (s, p))) = Some b
         \<and> flashcards (fst (run [NodeClick a, GenerateFlashcardClick, NodeClick b,
                                 Complete (length p + 1) (FlashcardResp (Inr c))] (s, p))) = [c]
         \<and> isFlashcardLoading (fst (run [NodeClick a, GenerateFlashcardClick, NodeClick b,
                                 Complete (length p + 1) (FlashcardResp (Inr c))] (s, p))) = False
         \<and> (selectedNode s0 \<noteq> Some b \<longrightarrow>
              selectedNode (fst (step (NodeClick b) (s0, p0))) = Some b
              \<and> imageUrl (fst (step (NodeClick b) (s0, p0))) = None
              \<and> isImageLoading (fst (step (NodeClick b) (s0, p0))) = True
              \<and> quiz (fst (step (NodeClick b) (s0, p0))) = None
              \<and> selectedAnswer (fst (step (NodeClick b) (s0, p0))) = None
              \<and> isAnswerSubmitted (fst (step (NodeClick b) (s0, p0))) = False
              \<and> flashcards (fst (step (NodeClick b) (s0, p0))) = []
              \<and> currentFlashcardIndex (fst (step (NodeClick b) (s0, p0))) = 0
              \<and> isFlashcardFlipped (fst (step (NodeClick b) (s0, p0))) = False)
         \<and> (k < length p0 \<and> p0 ! k = ImageReq c0 \<longrightarrow>
              fst (step (Complete k (ImageResp url)) (s0, p0))
                = s0\<lparr> imageUrl := url, isImageLoading := False \<rparr>)
         \<and> (k < length p0 \<and> p0 ! k = QuizReq mc \<longrightarrow>
              fst (step (Complete k (QuizResp (Inr q))) (s0, p0))
                = s0\<lparr> quiz := Some q, isQuizLoading := False \<rparr>)
         \<and> (k < length p0 \<and> p0 ! k = FlashcardReq mc captured \<longrightarrow>
              fst (step (Complete k (FlashcardResp (Inr c))) (s0, p0))
                = s0\<lparr> flashcards := flashcards s0 @ [c],
                       currentFlashcardIndex := int (length captured),
                       isFlashcardLoading := False \<rparr>)"
proof -
  note image = late_image [OF assms(1,2), of p url]
  note quiz = late_quiz [OF assms(1,2,3), of p q]
  note flashcard = late_flashcard [OF assms(1,2,4), of p c]
  have reset: "selectedNode s0 \<noteq> Some b \<longrightarrow>
              selectedNode (fst (step (NodeClick b) (s0, p0))) = Some b
              \<and> imageUrl (fst (step (NodeClick b) (s0, p0))) = None
              \<and> isImageLoading (fst (step (NodeClick b) (s0, p0))) = True
              \<and> quiz (fst (step (NodeClick b) (s0, p0))) = None
              \<and> selectedAnswer (fst (step (NodeClick b) (s0, p0))) = None
              \<and> isAnswerSubmitted (fst (step (NodeClick b) (s0, p0))) = False
              \<and> flashcards (fst (step (NodeClick b) (s0, p0))) = []
              \<and> currentFlashcardIndex (fst (step (NodeClick b) (s0, p0))) = 0
              \<and> isFlashcardFlipped (fst (step (NodeClick b) (s0, p0))) = False"
    using selection_resets [of s0 b p0] by blast
  have delivered: "(k < length p0 \<and> p0 ! k = ImageReq c0 \<longrightarrow>
              fst (step (Complete k (ImageResp url)) (s0, p0))
                = s0\<lparr> imageUrl := url, isImageLoading := False \<rparr>)
         \<and> (k < length p0 \<and> p0 ! k = QuizReq mc \<longrightarrow>
              fst (step (Complete k (QuizResp (Inr q))) (s0, p0))
                = s0\<lparr> quiz := Some q, isQuizLoading := False \<rparr>)
         \<and> (k < length p0 \<and> p0 ! k = FlashcardReq mc captured \<longrightarrow>
              fst (step (Complete k (FlashcardResp (Inr c))) (s0, p0))
                = s0\<lparr> flashcards := flashcards s0 @ [c],
                       currentFlashcardIndex := int (length captured),
                       isFlashcardLoading := False \<rparr>)"
    using delivery_ignores_selection [of k p0 c0 url s0 mc q captured c] by blast
  show ?thesis
    by (insert image quiz flashcard reset delivered, elim conjE, (intro conjI; assumption))
qed

text \<open>
  C7 on the initial state: select Insulin, then Obesity, then Insulin's responses arrive.
  The reset is shown on a state that holds a quiz and a card, and the delivery on a state
  in which Obesity is selected while an image request for Insulin is in flight.
\<close>

theorem late_responses_are_applied_witness:
  "selectedNode (fst (run [NodeClick insulinNode, NodeClick obesityNode,
                           Complete 0 (ImageResp (Some (str ''insulin.png'')))] (initialState, [])))
     = Some obesityNode
   \<and> imageUrl (fst (run [NodeClick insulinNode, NodeClick obesityNode,
                         Complete 0 (ImageResp (Some (str ''insulin.png'')))] (initialState, [])))
     = Some (str ''insulin.png'')
   \<and> isImageLoading (fst (run [NodeClick insulinNode, NodeClick obesityNode,
                         Complete 0 (ImageResp (Some (str ''insulin.png'')))] (initialState, [])))
     = False
   \<and> quiz (fst (run [NodeClick insulinNode, GenerateQuizClick, NodeClick obesityNode,
                     Complete 1 (QuizResp (Inr sampleQuiz))] (initialState, [])))
     = Some sampleQuiz
   \<and> flashcards (fst (run [NodeClick insulinNode, GenerateFlashcardClick, NodeClick obesityNode,
                           Complete 1 (FlashcardResp (Inr (sampleCard ''first question'')))]
                        (initialState, [])))
     = [sampleCard ''first question'']
   \<and> quiz (fst (step (NodeClick obesityNode)
        (initialState\<lparr> selectedNode := Some insulinNode, quiz := Some sampleQuiz,
                       flashcards := [sampleCard ''first question''] \<rparr>, []))) = None
   \<and> flashcards (fst (step (NodeClick obesityNode)
        (initialState\<lparr> selectedNode := Some insulinNode, quiz := Some sampleQuiz,
                       flashcards := [sampleCard ''first question''] \<rparr>, []))) = []
   \<and> fst (step (Complete 0 (ImageResp (Some (str ''insulin.png''))))
        (initialState\<lparr> selectedNode := Some obesityNode, isImageLoading := True \<rparr>,
         [ImageReq (str ''Insulin''), ImageReq (str ''Obesity'')]))
     = initialState\<lparr> selectedNode := Some obesityNode, isImageLoading := True,
                      imageUrl := Some (str ''insulin.png''), isImageLoading := False \<rparr>"
proof -
  have init: "selectedNode initialState \<noteq> Some insulinNode"
    "\<not> isQuizLoading initialState" "\<not> isFlashcardLoading initialState"
    by (simp_all add: initialState_def)
  have traces: "selectedNode (fst (run [NodeClick insulinNode, NodeClick obesityNode,
                           Complete 0 (ImageResp (Some (str ''insulin.png'')))] (initialState, [])))
     = Some obesityNode
   \<and> imageUrl (fst (run [NodeClick insulinNode, NodeClick obesityNode,
                         Complete 0 (ImageResp (Some (str ''insulin.png'')))] (initialState, [])))
     = Some (str ''insulin.png'')
   \<and> isImageLoading (fst (run [NodeClick insulinNode, NodeClick obesityNode,
                         Complete 0 (ImageResp (Some (str ''insulin.png'')))] (initialState, [])))
     = False
   \<and> quiz (fst (run [NodeClick insulinNode, GenerateQuizClick, NodeClick obesityNode,
                     Complete 1 (QuizResp (Inr sampleQuiz))] (initialState, [])))
     = Some sampleQuiz
   \<and> flashcards (fst (run [NodeClick insulinNode, GenerateFlashcardClick, NodeClick obesityNode,
                           Complete 1 (FlashcardResp (Inr (sampleCard ''first question'')))]
                        (initialState, [])))
     = [sampleCard ''first question'']"
    using late_responses_are_applied
      [OF insulin_neq_obesity init, of "[]" "Some (str ''insulin.png'')" sampleQuiz
         "sampleCard ''first question''"]
    by simp
  have other: "selectedNode (initialState\<lparr> selectedNode := Some insulinNode,
                  quiz := Some sampleQuiz, flashcards := [sampleCard ''first question''] \<rparr>)
                 \<noteq> Some obesityNode"
    using insulin_neq_obesity by simp
  have reset: "quiz (fst (step (NodeClick obesityNode)
        (initialState\<lparr> selectedNode := Some insulinNode, quiz := Some sampleQuiz,
                       flashcards := [sampleCard ''first question''] \<rparr>, []))) = None
   \<and> flashcards (fst (step (NodeClick obesityNode)
        (initialState\<lparr> selectedNode := Some insulinNode, quiz := Some sampleQuiz,
                       flashcards := [sampleCard ''first question''] \<rparr>, []))) = []"
    using late_responses_are_applied
      [OF insulin_neq_obesity init,
       where ?s0.0 = "initialState\<lparr> selectedNode := Some insulinNode, quiz := Some sampleQuiz,
                       flashcards := [sampleCard ''first question''] \<rparr>"
         and ?p0.0 = "[]"] other
    by blast
  have inflight: "(0::nat) < length [ImageReq (str ''Insulin''), ImageReq (str ''Obesity'')]
                  \<and> [ImageReq (str ''Insulin''), ImageReq (str ''Obesity'')] ! 0
                      = ImageReq (str ''Insulin'')"
    by simp
  have delivered: "fst (step (Complete 0 (ImageResp (Some (str ''insulin.png''))))
        (initialState\<lparr> selectedNode := Some obesityNode, isImageLoading := True \<rparr>,
         [ImageReq (str ''Insulin''), ImageReq (str ''Obesity'')]))
     = initialState\<lparr> selectedNode := Some obesityNode, isImageLoading := True,
                      imageUrl := Some (str ''insulin.png''), isImageLoading := False \<rparr>"
    using late_responses_are_applied
      [OF insulin_neq_obesity init,
       where ?s0.0 = "initialState\<lparr> selectedNode := Some obesityNode, isImageLoading := True \<rparr>"
         and ?p0.0 = "[ImageReq (str ''Insulin''), ImageReq (str ''Obesity'')]"
         and k = 0 and ?c0.0 = "str ''Insulin''" and url = "Some (str ''insulin.png'')"] inflight
    by blast
  show ?thesis
    by (insert traces reset delivered, elim conjE, (intro conjI; assumption))
qed

text \<open>
  C7 as stated fails. Insulin is selected, then Obesity; the image for Obesity arrives and
  is shown; then the late image response of the request issued for Insulin arrives and
  replaces it, while Obesity is still the selection.
\<close>

theorem stale_image_overwrites_later_selection:
  "snd (run [NodeClick insulinNode, NodeClick obesityNode] (initialState, []))
     = [ImageReq (str ''Insulin''), ImageReq (str ''Obesity'')]
   \<and> selectedNode (fst (run [NodeClick insulinNode, NodeClick obesityNode,
                             Complete 1 (ImageResp (Some (str ''obesity.png'')))] (initialState, [])))
     = Some obesityNode
   \<and> imageUrl (fst (run [NodeClick insulinNode, NodeClick obesityNode,
                         Complete 1 (ImageResp (Some (str ''obesity.png'')))] (initialState, [])))
     = Some (str ''obesity.png'')
   \<and> snd (run [NodeClick insulinNode, NodeClick obesityNode,
               Complete 1 (ImageResp (Some (str ''obesity.png'')))] (initialState, []))
     = [ImageReq (str ''Insulin'')]
   \<and> selectedNode (fst (run [NodeClick insulinNode, NodeClick obesityNode,
                             Complete 1 (ImageResp (Some (str ''obesity.png''))),
                             Complete 0 (ImageResp (Some (str ''insulin.png'')))] (initialState, [])))
     = Some obesityNode
   \<and> imageUrl (fst (run [NodeClick insulinNode, NodeClick obesityNode,
                         Complete 1 (ImageResp (Some (str ''obesity.png''))),
                         Complete 0 (ImageResp (Some (str ''insulin.png'')))] (initialState, [])))
     = Some (str ''insulin.png'')"
proof -
  have init: "selectedNode initialState \<noteq> Some insulinNode"
    by (simp add: initialState_def)
  have names: "concept (data insulinNode) = str ''Insulin''"
    "concept (data obesityNode) = str ''Obesity''"
    by (simp_all add: insulinNode_def obesityNode_def conceptNode_def sampleConcept_def)
  show ?thesis
    using insulin_neq_obesity init names
    by (simp del: step.simps add: step_NodeClick_new step.simps(4) dropRequest_def
          getImage_settle_def)
qed

end
